theory Spec2Isabelle
  imports Main "HOL-Library.Char_ord" "HOL-Library.List_Lexorder" "HOL-Library.Product_Lexorder"
begin

section \<open>The advanced-search mapping-criteria view model\<close>

text \<open>
  A shallow embedding of
  \<^verbatim>\<open>components/advanced-search/advanced-search-mapping-criteria.js\<close>.
  The component is a \<^verbatim>\<open>can.Map\<close> with the fields \<^verbatim>\<open>criteria\<close>, \<^verbatim>\<open>modelName\<close>,
  \<^verbatim>\<open>root\<close> and \<^verbatim>\<open>availableAttributes\<close>, a setter on \<^verbatim>\<open>criteria\<close>, and the methods
  \<^verbatim>\<open>mappingTypes\<close>, \<^verbatim>\<open>title\<close>, \<^verbatim>\<open>remove\<close>, \<^verbatim>\<open>addRelevant\<close> and \<^verbatim>\<open>removeRelevant\<close>.
  Mutation of the observable is explicit state passing; a JavaScript exception is the
  left summand of the result.
\<close>

subsection \<open>JavaScript values\<close>

text \<open>
  The values a field of an observable record can hold. An object is a map from
  property names to values; \<open>Num\<close> stands for the integer-valued numbers.
\<close>

datatype jsval =
    Undefined
  | Null
  | Bool bool
  | Num int
  | Str string
  | Obj "string \<Rightarrow> jsval option"

text \<open>
  JavaScript's truthiness, which decides \<^verbatim>\<open>!x\<close> and \<^verbatim>\<open>a && b\<close>: \<^verbatim>\<open>undefined\<close>, \<^verbatim>\<open>null\<close>,
  \<^verbatim>\<open>false\<close>, \<^verbatim>\<open>0\<close> and the empty string are falsy, every object is truthy.
\<close>

fun truthy :: "jsval \<Rightarrow> bool" where
  "truthy Undefined = False"
| "truthy Null = False"
| "truthy (Bool b) = b"
| "truthy (Num n) = (n \<noteq> 0)"
| "truthy (Str s) = (s \<noteq> [])"
| "truthy (Obj fields) = True"

datatype js_error = TypeError

subsection \<open>Observable records\<close>

text \<open>
  A \<^verbatim>\<open>can.Map\<close> holds its data as a dictionary from attribute names to values.
  \<^verbatim>\<open>m.attr(k)\<close> and the plain property read \<^verbatim>\<open>m.k\<close> give \<^verbatim>\<open>undefined\<close> for a missing
  attribute; \<^verbatim>\<open>m.attr(k, v)\<close> stores \<open>v\<close> under \<open>k\<close>, replacing what was there;
  \<^verbatim>\<open>m.removeAttr(k)\<close> deletes the attribute and is silent when there is none.
\<close>

type_synonym can_map = "string \<Rightarrow> jsval option"

definition attr_get :: "can_map \<Rightarrow> string \<Rightarrow> jsval" where
  "attr_get m k = (case m k of None \<Rightarrow> Undefined | Some v \<Rightarrow> v)"

definition attr_set :: "can_map \<Rightarrow> string \<Rightarrow> jsval \<Rightarrow> can_map" where
  "attr_set m k v = m(k \<mapsto> v)"

definition removeAttr :: "can_map \<Rightarrow> string \<Rightarrow> can_map" where
  "removeAttr m k = m(k := None)"

subsection \<open>The collaborators outside the component\<close>

text \<open>
  A model class of \<^verbatim>\<open>CMS.Models\<close>, as far as the component reads it: the static
  properties \<^verbatim>\<open>model_singular\<close> and \<^verbatim>\<open>title_singular\<close>, each a string or missing
  (\<open>None\<close> is \<^verbatim>\<open>undefined\<close>).
\<close>

record model =
  model_singular :: "string option"
  title_singular :: "string option"

text \<open>
  The globals the component reads are parameters of the model, since their code is
  not part of the component:
  \<^item> \<open>get_canonical_mappings_for\<close> is \<^verbatim>\<open>GGRC.Mappings.get_canonical_mappings_for\<close>; it
    receives the value of \<^verbatim>\<open>modelName\<close> (\<open>None\<close> is \<^verbatim>\<open>null\<close>) and returns an object,
    given as the list of its entries in enumeration order;
  \<^item> \<open>CMS_Models\<close> is the registry \<^verbatim>\<open>CMS.Models\<close>, \<open>None\<close> where it has no entry;
  \<^item> \<open>create_attribute\<close> and \<open>create_mappingCriteria\<close> are the values returned by
    \<^verbatim>\<open>GGRC.Utils.AdvancedSearch.create.attribute()\<close> and \<^verbatim>\<open>....mappingCriteria()\<close>.
\<close>

record env =
  get_canonical_mappings_for :: "string option \<Rightarrow> (string \<times> jsval) list"
  CMS_Models :: "string \<Rightarrow> model option"
  create_attribute :: jsval
  create_mappingCriteria :: jsval

subsection \<open>The lodash functions used\<close>

definition keys :: "(string \<times> jsval) list \<Rightarrow> string list" where
  "keys obj = map fst obj"

text \<open>\<^verbatim>\<open>_.compact\<close> drops the falsy entries; a model class is truthy, \<^verbatim>\<open>undefined\<close> is not.\<close>

fun compact :: "'a option list \<Rightarrow> 'a list" where
  "compact [] = []"
| "compact (None # xs) = compact xs"
| "compact (Some x # xs) = x # compact xs"

text \<open>
  \<^verbatim>\<open>_.sortBy(xs, 'model_singular')\<close> is a stable ascending sort on the named property:
  strings compare as JavaScript's \<^verbatim>\<open><\<close> does, character by character with a proper
  prefix first, and \<^verbatim>\<open>undefined\<close> sorts after every string. The key puts a flag in front
  of the string, so that the lexicographic order on pairs is that order.
\<close>

definition sortBy_criterion :: "model \<Rightarrow> bool \<times> string" where
  "sortBy_criterion m = (case model_singular m of None \<Rightarrow> (True, []) | Some s \<Rightarrow> (False, s))"

definition sortBy_model_singular :: "model list \<Rightarrow> model list" where
  "sortBy_model_singular ms = sort_key sortBy_criterion ms"

text \<open>A string property used as a condition: missing and empty are falsy.\<close>

definition truthy_prop :: "string option \<Rightarrow> bool" where
  "truthy_prop p = (case p of None \<Rightarrow> False | Some s \<Rightarrow> s \<noteq> [])"

definition prop_value :: "string option \<Rightarrow> jsval" where
  "prop_value p = (case p of None \<Rightarrow> Undefined | Some s \<Rightarrow> Str s)"

subsection \<open>The view model\<close>

text \<open>
  The state of the component. \<open>dispatched\<close> is the sequence of events the component has
  sent to its listeners, oldest first.
\<close>

record viewModel =
  criteria :: can_map
  modelName :: "string option"
  root :: bool
  availableAttributes :: "jsval list"
  dispatched :: "string list"

text \<open>
  The setter of \<^verbatim>\<open>criteria\<close>:
  \<^verbatim>\<open>if (!criteria.filter) { criteria.attr('filter', create.attribute()); } return criteria;\<close>
  Its argument is a criteria record, a \<^verbatim>\<open>can.Map\<close>; reading an attribute of one and
  writing one cannot throw, so the result is the record itself.
\<close>

definition criteria_set :: "env \<Rightarrow> can_map \<Rightarrow> can_map" where
  "criteria_set e c =
     (if \<not> truthy (attr_get c ''filter'')
      then attr_set c ''filter'' (create_attribute e)
      else c)"

text \<open>
  The list \<^verbatim>\<open>types\<close> that \<^verbatim>\<open>mappingTypes\<close> computes from \<^verbatim>\<open>modelName\<close>: the registered
  classes of the mapping's keys, sorted, then those with both names.
\<close>

definition mappingTypes_types :: "env \<Rightarrow> string option \<Rightarrow> model list" where
  "mappingTypes_types e name =
     (let mappings = get_canonical_mappings_for e name
      in filter (\<lambda>mapping. truthy_prop (model_singular mapping) \<and> truthy_prop (title_singular mapping))
           (sortBy_model_singular (compact (map (CMS_Models e) (keys mappings)))))"

text \<open>
  \<^verbatim>\<open>mappingTypes\<close>. When \<^verbatim>\<open>criteria.objectName\<close> is falsy it is set to
  \<^verbatim>\<open>_.first(types).model_singular\<close>; \<^verbatim>\<open>_.first\<close> of an empty list is \<^verbatim>\<open>undefined\<close>, and
  reading a property of \<^verbatim>\<open>undefined\<close> throws a \<^verbatim>\<open>TypeError\<close>.
\<close>

definition mappingTypes :: "env \<Rightarrow> viewModel \<Rightarrow> js_error + (model list \<times> viewModel)" where
  "mappingTypes e vm =
     (let types = mappingTypes_types e (modelName vm)
      in if \<not> truthy (attr_get (criteria vm) ''objectName'')
         then (case types of
                 [] \<Rightarrow> Inl TypeError
               | first # _ \<Rightarrow>
                   Inr (types,
                        vm\<lparr>criteria :=
                             attr_set (criteria vm) ''objectName'' (prop_value (model_singular first))\<rparr>))
         else Inr (types, vm))"

text \<open>
  \<^verbatim>\<open>title\<close>. \<^verbatim>\<open>CMS.Models[modelName]\<close> looks the name up as a property key, \<^verbatim>\<open>null\<close> as
  the key \<^verbatim>\<open>"null"\<close>; reading \<^verbatim>\<open>title_singular\<close> of a missing entry throws, and a
  missing \<^verbatim>\<open>title_singular\<close> is concatenated as \<^verbatim>\<open>"undefined"\<close>.
\<close>

definition property_key :: "string option \<Rightarrow> string" where
  "property_key name = (case name of None \<Rightarrow> ''null'' | Some s \<Rightarrow> s)"

definition to_string :: "string option \<Rightarrow> string" where
  "to_string p = (case p of None \<Rightarrow> ''undefined'' | Some s \<Rightarrow> s)"

definition title :: "env \<Rightarrow> viewModel \<Rightarrow> js_error + string" where
  "title e vm =
     (if root vm then Inr ''Mapped To''
      else (case CMS_Models e (property_key (modelName vm)) of
              None \<Rightarrow> Inl TypeError
            | Some m \<Rightarrow> Inr (''Where '' @ to_string (title_singular m) @ '' is mapped to'')))"

definition remove :: "viewModel \<Rightarrow> viewModel" where
  "remove vm = vm\<lparr>dispatched := dispatched vm @ [''remove'']\<rparr>"

definition addRelevant :: "env \<Rightarrow> viewModel \<Rightarrow> viewModel" where
  "addRelevant e vm =
     vm\<lparr>criteria := attr_set (criteria vm) ''mappedTo'' (create_mappingCriteria e)\<rparr>"

definition removeRelevant :: "viewModel \<Rightarrow> viewModel" where
  "removeRelevant vm = vm\<lparr>criteria := removeAttr (criteria vm) ''mappedTo''\<rparr>"

subsection \<open>A concrete registry and concrete component states\<close>

text \<open>
  An instance of the parameters, on which the definitions are evaluated: a registry
  with three complete model classes, one class without a title, one without either
  name, and a mapping for \<^verbatim>\<open>Program\<close> that also names a key the registry does not have.
  Every other model name, \<^verbatim>\<open>null\<close> included, has the empty mapping \<^verbatim>\<open>{}\<close>.
\<close>

definition example_models :: "string \<Rightarrow> model option" where
  "example_models =
     [''Program'' \<mapsto> \<lparr>model_singular = Some ''Program'', title_singular = Some ''Program''\<rparr>,
      ''Control'' \<mapsto> \<lparr>model_singular = Some ''Control'', title_singular = Some ''Control''\<rparr>,
      ''Audit'' \<mapsto> \<lparr>model_singular = Some ''Audit'', title_singular = Some ''Audit''\<rparr>,
      ''Relationship'' \<mapsto> \<lparr>model_singular = Some ''Relationship'', title_singular = None\<rparr>,
      ''Mixin'' \<mapsto> \<lparr>model_singular = None, title_singular = None\<rparr>]"

definition example_mappings :: "string option \<Rightarrow> (string \<times> jsval) list" where
  "example_mappings name =
     (if name = Some ''Program''
      then [(''Mixin'', Bool True), (''Control'', Bool True), (''Relationship'', Bool True),
            (''Unknown'', Bool True), (''Audit'', Bool True)]
      else [])"

definition example_env :: env where
  "example_env =
     \<lparr>get_canonical_mappings_for = example_mappings,
      CMS_Models = example_models,
      create_attribute = Obj [''type'' \<mapsto> Str ''attribute'', ''value'' \<mapsto> Obj Map.empty],
      create_mappingCriteria =
        Obj [''type'' \<mapsto> Str ''mappingCriteria'', ''value'' \<mapsto> Obj Map.empty]\<rparr>"

text \<open>
  A component whose parent passed it a model name, the root flag and an empty criteria
  record, which went through the setter. With no model name and \<open>False\<close> these are the
  defaults \<^verbatim>\<open>modelName: null\<close>, \<^verbatim>\<open>root: false\<close>, \<^verbatim>\<open>availableAttributes: []\<close> of the source.
\<close>

definition example_viewModel :: "string option \<Rightarrow> bool \<Rightarrow> viewModel" where
  "example_viewModel name r =
     \<lparr>criteria = criteria_set example_env Map.empty,
      modelName = name,
      root = r,
      availableAttributes = [],
      dispatched = []\<rparr>"

text \<open>A criteria record whose \<^verbatim>\<open>filter\<close> attribute is there and holds \<^verbatim>\<open>null\<close>.\<close>

definition null_filter_criteria :: can_map where
  "null_filter_criteria = [''objectName'' \<mapsto> Str ''Control'', ''filter'' \<mapsto> Null]"

section \<open>Properties\<close>

subsection \<open>Observable records and the registry instance\<close>

lemmas example_defs =
  example_env_def example_mappings_def example_models_def example_viewModel_def

lemma removeAttr_absent: "m k = None \<Longrightarrow> removeAttr m k = m"
  by (simp add: removeAttr_def fun_upd_idem)

lemma removeAttr_attr_set: "removeAttr (attr_set m k v) k = removeAttr m k"
  by (simp add: removeAttr_def attr_set_def)

lemma example_criteria_after_set:
  "criteria_set example_env Map.empty = [''filter'' \<mapsto> create_attribute example_env]"
  by (simp add: criteria_set_def attr_get_def attr_set_def)

subsection \<open>The setter of \<^verbatim>\<open>criteria\<close>\<close>

text \<open>
  C2. A criteria record without a \<^verbatim>\<open>filter\<close> attribute comes back from the setter with
  the default attribute filter under \<^verbatim>\<open>filter\<close> and every other attribute as it was.
  The setter has no failing step on a record: it reads one attribute and writes one.
\<close>

theorem criteria_set_attaches_default:
  "c ''filter'' = None \<Longrightarrow>
     criteria_set e c ''filter'' = Some (create_attribute e) \<and>
     (\<forall>k. k \<noteq> ''filter'' \<longrightarrow> criteria_set e c k = c k)"
  by (simp add: criteria_set_def attr_get_def attr_set_def)

theorem criteria_set_attaches_default_witness:
  "[''objectName'' \<mapsto> Str ''Control''] ''filter'' = None \<and>
   criteria_set example_env [''objectName'' \<mapsto> Str ''Control''] ''filter''
     = Some (Obj [''type'' \<mapsto> Str ''attribute'', ''value'' \<mapsto> Obj Map.empty]) \<and>
   criteria_set example_env [''objectName'' \<mapsto> Str ''Control''] ''objectName''
     = Some (Str ''Control'')"
  using criteria_set_attaches_default [of "[''objectName'' \<mapsto> Str ''Control'']" example_env]
  by (simp add: example_env_def)

text \<open>
  C3, as stated, fails: the guard of the setter is \<^verbatim>\<open>!criteria.filter\<close>, so a \<^verbatim>\<open>filter\<close>
  attribute that is there but falsy is replaced like a missing one. Here the record
  holds \<^verbatim>\<open>filter: null\<close> before the assignment and the default filter after it.
\<close>

theorem criteria_set_null_filter_counterexample:
  "null_filter_criteria ''filter'' = Some Null \<and>
   criteria_set example_env null_filter_criteria ''filter'' \<noteq> Some Null"
  by (simp add: null_filter_criteria_def criteria_set_def attr_get_def attr_set_def example_env_def)

text \<open>
  C3, amended. A criteria record whose \<^verbatim>\<open>filter\<close> holds a truthy value (any object, so
  any filter structure) comes back from the setter unchanged, its \<^verbatim>\<open>filter\<close> included;
  and for every record, assigning the result of the setter again changes nothing.
\<close>

theorem criteria_set_keeps_truthy_filter:
  "(\<forall>v. c ''filter'' = Some v \<and> truthy v \<longrightarrow>
        criteria_set e c = c \<and> criteria_set e c ''filter'' = Some v) \<and>
   criteria_set e (criteria_set e c) = criteria_set e c"
  by (auto simp add: criteria_set_def attr_get_def attr_set_def)

theorem criteria_set_keeps_truthy_filter_witness:
  "truthy (Obj [''type'' \<mapsto> Str ''state'']) \<and>
   criteria_set example_env [''filter'' \<mapsto> Obj [''type'' \<mapsto> Str ''state'']]
     = [''filter'' \<mapsto> Obj [''type'' \<mapsto> Str ''state'']] \<and>
   criteria_set example_env [''filter'' \<mapsto> Obj [''type'' \<mapsto> Str ''state'']] ''filter''
     = Some (Obj [''type'' \<mapsto> Str ''state''])"
  using criteria_set_keeps_truthy_filter
    [of "[''filter'' \<mapsto> Obj [''type'' \<mapsto> Str ''state'']]" example_env]
  by simp

subsection \<open>The list of mapping types\<close>

lemma truthy_prop_Some: "truthy_prop p \<Longrightarrow> \<exists>s. p = Some s \<and> s \<noteq> []"
  by (cases p) (simp_all add: truthy_prop_def)

lemma mappingTypes_types_truthy:
  "m \<in> set (mappingTypes_types e name) \<Longrightarrow>
     truthy_prop (model_singular m) \<and> truthy_prop (title_singular m)"
  by (simp add: mappingTypes_types_def)

text \<open>The filter runs after the sort and keeps the order of what it keeps.\<close>

lemma mappingTypes_types_sorted_criterion:
  "sorted (map sortBy_criterion (mappingTypes_types e name))"
  by (simp add: mappingTypes_types_def sortBy_model_singular_def sorted_filter)

lemma sortBy_criterion_le:
  "model_singular a = Some x \<Longrightarrow> model_singular b = Some y \<Longrightarrow>
     sortBy_criterion a \<le> sortBy_criterion b \<longleftrightarrow> x \<le> y"
  by (simp add: sortBy_criterion_def)

lemma mappingTypes_types_sorted_ids:
  "sorted (map (\<lambda>m. the (model_singular m)) (mappingTypes_types e name))"
proof -
  let ?ts = "mappingTypes_types e name"
  have "sorted_wrt (\<lambda>a b. sortBy_criterion a \<le> sortBy_criterion b) ?ts"
    using mappingTypes_types_sorted_criterion [of e name] by (simp add: sorted_map)
  then have "sorted_wrt (\<lambda>a b. the (model_singular a) \<le> the (model_singular b)) ?ts"
  proof (rule sorted_wrt_mono_rel [rotated])
    fix a b
    assume "a \<in> set ?ts" and "b \<in> set ?ts" and le: "sortBy_criterion a \<le> sortBy_criterion b"
    then obtain x y where "model_singular a = Some x" and "model_singular b = Some y"
      using mappingTypes_types_truthy truthy_prop_Some by blast
    with le show "the (model_singular a) \<le> the (model_singular b)"
      by (simp add: sortBy_criterion_le)
  qed
  then show ?thesis by (simp add: sorted_map)
qed

lemma mappingTypes_result:
  "mappingTypes e vm = Inr (ts, vm') \<Longrightarrow> ts = mappingTypes_types e (modelName vm)"
  by (auto simp add: mappingTypes_def Let_def split: if_splits list.splits)

lemma example_types:
  "mappingTypes_types example_env (Some ''Program'') =
     [\<lparr>model_singular = Some ''Audit'', title_singular = Some ''Audit''\<rparr>,
      \<lparr>model_singular = Some ''Control'', title_singular = Some ''Control''\<rparr>]"
  by (simp add: mappingTypes_types_def example_defs keys_def
      sortBy_model_singular_def sortBy_criterion_def truthy_prop_def)

text \<open>
  C4. Whatever the model name and the registry, every entry of the list that
  \<^verbatim>\<open>mappingTypes\<close> computes has a non-empty \<^verbatim>\<open>model_singular\<close> and a non-empty
  \<^verbatim>\<open>title_singular\<close>, the identifiers of the list are in ascending order, and a call
  that returns, returns this list.
\<close>

theorem mappingTypes_filtered_sorted:
  "(\<forall>m \<in> set (mappingTypes_types e (modelName vm)).
      (\<exists>s. model_singular m = Some s \<and> s \<noteq> []) \<and> (\<exists>t. title_singular m = Some t \<and> t \<noteq> [])) \<and>
   (\<exists>ids. map model_singular (mappingTypes_types e (modelName vm)) = map Some ids \<and> sorted ids) \<and>
   (\<forall>ts vm'. mappingTypes e vm = Inr (ts, vm') \<longrightarrow> ts = mappingTypes_types e (modelName vm))"
proof (intro conjI)
  let ?ts = "mappingTypes_types e (modelName vm)"
  show "\<forall>m \<in> set ?ts.
          (\<exists>s. model_singular m = Some s \<and> s \<noteq> []) \<and> (\<exists>t. title_singular m = Some t \<and> t \<noteq> [])"
    using mappingTypes_types_truthy truthy_prop_Some by blast
  have "map model_singular ?ts = map Some (map (\<lambda>m. the (model_singular m)) ?ts)"
  proof (simp, intro ballI)
    fix m assume "m \<in> set ?ts"
    then obtain s where "model_singular m = Some s"
      using mappingTypes_types_truthy truthy_prop_Some by blast
    then show "model_singular m = Some (the (model_singular m))" by simp
  qed
  then show "\<exists>ids. map model_singular ?ts = map Some ids \<and> sorted ids"
    using mappingTypes_types_sorted_ids by blast
  show "\<forall>ts vm'. mappingTypes e vm = Inr (ts, vm') \<longrightarrow> ts = ?ts"
    using mappingTypes_result by blast
qed

theorem mappingTypes_filtered_sorted_witness:
  "mappingTypes_types example_env (modelName (example_viewModel (Some ''Program'') False)) =
     [\<lparr>model_singular = Some ''Audit'', title_singular = Some ''Audit''\<rparr>,
      \<lparr>model_singular = Some ''Control'', title_singular = Some ''Control''\<rparr>] \<and>
   (\<exists>ids. map model_singular
            (mappingTypes_types example_env (modelName (example_viewModel (Some ''Program'') False)))
          = map Some ids \<and> sorted ids)"
  using mappingTypes_filtered_sorted [of example_env "example_viewModel (Some ''Program'') False"]
  by (simp add: example_types example_viewModel_def)

text \<open>
  C5. When \<^verbatim>\<open>criteria.objectName\<close> is unset and the computed list is not empty, the call
  returns the list and the only change to the component is that \<^verbatim>\<open>criteria.objectName\<close>
  now holds the \<^verbatim>\<open>model_singular\<close> of the first entry.
\<close>

theorem mappingTypes_selects_first:
  "criteria vm ''objectName'' = None \<Longrightarrow>
   mappingTypes_types e (modelName vm) = first # rest \<Longrightarrow>
   \<exists>ident. model_singular first = Some ident \<and> ident \<noteq> [] \<and>
     mappingTypes e vm =
       Inr (first # rest, vm\<lparr>criteria := (criteria vm)(''objectName'' \<mapsto> Str ident)\<rparr>)"
proof -
  assume unset: "criteria vm ''objectName'' = None"
    and types: "mappingTypes_types e (modelName vm) = first # rest"
  from types have "first \<in> set (mappingTypes_types e (modelName vm))" by simp
  then obtain ident where ident: "model_singular first = Some ident" "ident \<noteq> []"
    using mappingTypes_types_truthy truthy_prop_Some by blast
  from unset types ident have
    "mappingTypes e vm =
       Inr (first # rest, vm\<lparr>criteria := (criteria vm)(''objectName'' \<mapsto> Str ident)\<rparr>)"
    by (simp add: mappingTypes_def attr_get_def attr_set_def prop_value_def)
  with ident show ?thesis by blast
qed

theorem mappingTypes_selects_first_witness:
  "criteria (example_viewModel (Some ''Program'') False) ''objectName'' = None \<and>
   mappingTypes example_env (example_viewModel (Some ''Program'') False) =
     Inr ([\<lparr>model_singular = Some ''Audit'', title_singular = Some ''Audit''\<rparr>,
           \<lparr>model_singular = Some ''Control'', title_singular = Some ''Control''\<rparr>],
          (example_viewModel (Some ''Program'') False)
            \<lparr>criteria := (criteria (example_viewModel (Some ''Program'') False))
                           (''objectName'' \<mapsto> Str ''Audit'')\<rparr>)"
  using mappingTypes_selects_first [of "example_viewModel (Some ''Program'') False" example_env
      "\<lparr>model_singular = Some ''Audit'', title_singular = Some ''Audit''\<rparr>"
      "[\<lparr>model_singular = Some ''Control'', title_singular = Some ''Control''\<rparr>]"]
  by (simp add: example_types example_viewModel_def criteria_set_def attr_get_def attr_set_def)

text \<open>
  An empty list with a falsy \<^verbatim>\<open>criteria.objectName\<close>: the source has no guard around
  \<^verbatim>\<open>_.first(types).model_singular\<close>, and the call throws.
\<close>

lemma mappingTypes_empty_throws:
  "\<not> truthy (attr_get (criteria vm) ''objectName'') \<Longrightarrow>
   mappingTypes_types e (modelName vm) = [] \<Longrightarrow>
   mappingTypes e vm = Inl TypeError"
  by (simp add: mappingTypes_def)

text \<open>
  C1 says that such a call leaves \<^verbatim>\<open>criteria.objectName\<close> unset and raises nothing. On
  the component with no model name, whose mapping is empty and whose criteria record
  has no \<^verbatim>\<open>objectName\<close>, the call ends in a \<^verbatim>\<open>TypeError\<close> instead.
\<close>

theorem mappingTypes_empty_list_fault:
  "criteria (example_viewModel None False) ''objectName'' = None \<and>
   mappingTypes_types example_env (modelName (example_viewModel None False)) = [] \<and>
   mappingTypes example_env (example_viewModel None False) = Inl TypeError"
proof -
  have unset: "criteria (example_viewModel None False) ''objectName'' = None"
    by (simp add: example_viewModel_def criteria_set_def attr_get_def attr_set_def)
  have empty: "mappingTypes_types example_env (modelName (example_viewModel None False)) = []"
    by (simp add: mappingTypes_types_def example_defs keys_def sortBy_model_singular_def)
  from unset have "\<not> truthy (attr_get (criteria (example_viewModel None False)) ''objectName'')"
    by (simp add: attr_get_def)
  with unset empty show ?thesis
    by (simp add: mappingTypes_empty_throws)
qed

subsection \<open>The title\<close>

text \<open>
  C7, as stated, fails on the states whose \<^verbatim>\<open>modelName\<close> names no class of the
  registry: with \<^verbatim>\<open>root\<close> false, \<^verbatim>\<open>CMS.Models[modelName]\<close> is \<^verbatim>\<open>undefined\<close> and reading its
  \<^verbatim>\<open>title_singular\<close> throws. The declared defaults \<^verbatim>\<open>modelName: null\<close>, \<^verbatim>\<open>root: false\<close>
  are such a state.
\<close>

theorem title_unregistered_model_counterexample:
  "\<not> root (example_viewModel None False) \<and>
   title example_env (example_viewModel None False) = Inl TypeError"
  by (simp add: title_def example_defs property_key_def)

text \<open>
  C7, amended. With \<^verbatim>\<open>root\<close> true the title is the fixed label, whatever the model
  name. With \<^verbatim>\<open>root\<close> false and a model name that the registry has a class for, the
  title is the sentence around that class's \<^verbatim>\<open>title_singular\<close>; for the class
  \<^verbatim>\<open>Program\<close> titled \<^verbatim>\<open>Program\<close> it is \<^verbatim>\<open>Where Program is mapped to\<close>.
\<close>

theorem title_root_or_sentence:
  "(root vm \<longrightarrow> title e vm = Inr ''Mapped To'') \<and>
   (\<not> root vm \<and> CMS_Models e (property_key (modelName vm)) = Some m \<longrightarrow>
      title e vm = Inr (''Where '' @ to_string (title_singular m) @ '' is mapped to'')) \<and>
   (\<not> root vm \<and> modelName vm = Some ''Program'' \<and> CMS_Models e ''Program'' = Some m \<and>
      title_singular m = Some ''Program'' \<longrightarrow>
      title e vm = Inr ''Where Program is mapped to'')"
  by (simp add: title_def property_key_def to_string_def)

theorem title_root_or_sentence_witness:
  "root (example_viewModel None True) \<and>
   title example_env (example_viewModel None True) = Inr ''Mapped To'' \<and>
   \<not> root (example_viewModel (Some ''Program'') False) \<and>
   modelName (example_viewModel (Some ''Program'') False) = Some ''Program'' \<and>
   CMS_Models example_env ''Program''
     = Some \<lparr>model_singular = Some ''Program'', title_singular = Some ''Program''\<rparr> \<and>
   title example_env (example_viewModel (Some ''Program'') False) = Inr ''Where Program is mapped to''"
proof -
  let ?program = "\<lparr>model_singular = Some ''Program'', title_singular = Some ''Program''\<rparr>"
  have is_root: "root (example_viewModel None True)"
    and not_root: "\<not> root (example_viewModel (Some ''Program'') False)"
    and name: "modelName (example_viewModel (Some ''Program'') False) = Some ''Program''"
    by (simp_all add: example_viewModel_def)
  have registered: "CMS_Models example_env ''Program'' = Some ?program"
    by (simp add: example_env_def example_models_def)
  have "title example_env (example_viewModel None True) = Inr ''Mapped To''"
    using title_root_or_sentence [of "example_viewModel None True" example_env] is_root
    by blast
  moreover have "title example_env (example_viewModel (Some ''Program'') False)
      = Inr ''Where Program is mapped to''"
    using title_root_or_sentence [of "example_viewModel (Some ''Program'') False" example_env ?program]
      not_root name registered
    by simp
  ultimately show ?thesis
    using is_root not_root name registered by simp
qed

subsection \<open>The removal signal\<close>

text \<open>
  C8. \<^verbatim>\<open>remove\<close> sends the event \<^verbatim>\<open>remove\<close> to the listeners and leaves \<^verbatim>\<open>criteria\<close>,
  \<^verbatim>\<open>modelName\<close>, \<^verbatim>\<open>root\<close> and \<^verbatim>\<open>availableAttributes\<close> as they were.
\<close>

theorem remove_dispatches_only:
  "dispatched (remove vm) = dispatched vm @ [''remove''] \<and>
   criteria (remove vm) = criteria vm \<and>
   modelName (remove vm) = modelName vm \<and>
   root (remove vm) = root vm \<and>
   availableAttributes (remove vm) = availableAttributes vm"
  by (simp add: remove_def)

subsection \<open>The relevance sub-clause\<close>

text \<open>
  C9. On a criteria record without \<^verbatim>\<open>mappedTo\<close>, \<^verbatim>\<open>removeRelevant\<close> changes nothing, and
  on every record a second \<^verbatim>\<open>removeRelevant\<close> changes nothing after the first. The
  operation has no failing step.
\<close>

theorem removeRelevant_without_mappedTo:
  "(criteria vm ''mappedTo'' = None \<longrightarrow> removeRelevant vm = vm) \<and>
   removeRelevant (removeRelevant vm) = removeRelevant vm"
  by (simp add: removeRelevant_def removeAttr_def fun_upd_idem)

theorem removeRelevant_without_mappedTo_witness:
  "criteria (example_viewModel (Some ''Program'') False) ''mappedTo'' = None \<and>
   removeRelevant (example_viewModel (Some ''Program'') False)
     = example_viewModel (Some ''Program'') False"
  using removeRelevant_without_mappedTo [of "example_viewModel (Some ''Program'') False"]
  by (simp add: example_viewModel_def criteria_set_def attr_get_def attr_set_def)

text \<open>
  C10. After \<^verbatim>\<open>addRelevant\<close> the attribute \<^verbatim>\<open>mappedTo\<close> holds the node that
  \<^verbatim>\<open>create.mappingCriteria()\<close> returned, and a sub-clause \<open>old\<close> that was attached before
  leaves no trace: the result is the same as without it.
\<close>

theorem addRelevant_overwrites:
  "criteria (addRelevant e vm) ''mappedTo'' = Some (create_mappingCriteria e) \<and>
   addRelevant e (vm\<lparr>criteria := attr_set (criteria vm) ''mappedTo'' old\<rparr>) = addRelevant e vm"
  by (simp add: addRelevant_def attr_set_def)

text \<open>
  C6, as stated, fails on a record that already has a \<^verbatim>\<open>mappedTo\<close>: \<^verbatim>\<open>addRelevant\<close>
  overwrites it and \<^verbatim>\<open>removeRelevant\<close> deletes it, so the record does not come back to
  what it was. The state here is the example component after one \<^verbatim>\<open>addRelevant\<close>.
\<close>

theorem add_remove_relevant_counterexample:
  "criteria (addRelevant example_env (example_viewModel (Some ''Program'') False)) ''mappedTo''
     \<noteq> None \<and>
   removeRelevant
      (addRelevant example_env (addRelevant example_env (example_viewModel (Some ''Program'') False)))
     \<noteq> addRelevant example_env (example_viewModel (Some ''Program'') False)"
proof
  let ?vm = "addRelevant example_env (example_viewModel (Some ''Program'') False)"
  show "criteria ?vm ''mappedTo'' \<noteq> None"
    by (simp add: addRelevant_def attr_set_def)
  show "removeRelevant (addRelevant example_env ?vm) \<noteq> ?vm"
  proof
    assume "removeRelevant (addRelevant example_env ?vm) = ?vm"
    then have "criteria (removeRelevant (addRelevant example_env ?vm)) ''mappedTo''
        = criteria ?vm ''mappedTo''"
      by simp
    then show False
      by (simp add: removeRelevant_def addRelevant_def removeAttr_def attr_set_def)
  qed
qed

text \<open>
  C6, amended. On every criteria record, \<^verbatim>\<open>addRelevant\<close> followed by \<^verbatim>\<open>removeRelevant\<close>
  leaves no \<^verbatim>\<open>mappedTo\<close> attribute at all and gives what \<^verbatim>\<open>removeRelevant\<close> alone gives;
  when the record had no \<^verbatim>\<open>mappedTo\<close> before, that is the record as it was.
\<close>

theorem add_then_remove_relevant:
  "criteria (removeRelevant (addRelevant e vm)) ''mappedTo'' = None \<and>
   removeRelevant (addRelevant e vm) = removeRelevant vm \<and>
   (criteria vm ''mappedTo'' = None \<longrightarrow> removeRelevant (addRelevant e vm) = vm)"
  by (simp add: removeRelevant_def addRelevant_def removeAttr_def attr_set_def fun_upd_idem)

theorem add_then_remove_relevant_witness:
  "criteria (example_viewModel (Some ''Program'') False) ''mappedTo'' = None \<and>
   criteria (addRelevant example_env (example_viewModel (Some ''Program'') False)) ''mappedTo''
     = Some (create_mappingCriteria example_env) \<and>
   removeRelevant (addRelevant example_env (example_viewModel (Some ''Program'') False))
     = example_viewModel (Some ''Program'') False"
proof -
  let ?vm = "example_viewModel (Some ''Program'') False"
  have absent: "criteria ?vm ''mappedTo'' = None"
    by (simp add: example_viewModel_def criteria_set_def attr_get_def attr_set_def)
  have attached: "criteria (addRelevant example_env ?vm) ''mappedTo''
      = Some (create_mappingCriteria example_env)"
    by (simp add: addRelevant_def attr_set_def)
  have "removeRelevant (addRelevant example_env ?vm) = ?vm"
    using add_then_remove_relevant [of example_env ?vm] absent by blast
  with absent attached show ?thesis by simp
qed

end
